theory Spec2Isabelle
  imports Complex_Main
begin

section \<open>JavaScript values and coercions\<close>

text \<open>
  The component (\<^verbatim>\<open>CameraUI\<close>, in its two variants: with size metrics and history, and
  \<^verbatim>\<open>cameraUIwithoutSize.tsx\<close>) handles data whose TypeScript annotations are erased at run
  time: the response of the detection service and the history read back from local storage
  are whatever JSON they hold. The model therefore works on run-time values.

  A number is NaN, an infinity, negative zero or a finite value. Every finite double is a
  rational, so \<open>Fin\<close> over-approximates the finite doubles; \<open>Fin 0\<close> is \<open>+0\<close>.
\<close>

datatype jsnum = NaN | PosInf | NegInf | NegZero | Fin rat

text \<open>
  Values as \<^verbatim>\<open>JSON.parse\<close> and object literals build them, with \<^verbatim>\<open>undefined\<close>. An object is
  the list of its own properties; a key is looked up from the front.
\<close>

datatype jsval =
    Undefined
  | Null
  | Bool bool
  | Num jsnum
  | Str string
  | Arr "jsval list"
  | Obj "(string \<times> jsval) list"

datatype js_error = TypeError | RequestFailed

text \<open>
  Two operations of the language run-time are parameters of the model: the numeric value of
  a string (\<^verbatim>\<open>StringToNumber\<close>: white space, decimal, hexadecimal and exponent literals,
  rounding to a double) and the decimal text of a number (\<^verbatim>\<open>Number::toString\<close>). Every
  theorem below holds for all such operations.
\<close>

record js_runtime =
  StringToNumber :: "string \<Rightarrow> jsnum"
  NumberToString :: "jsnum \<Rightarrow> string"

definition is_finite :: "jsnum \<Rightarrow> bool" where
  "is_finite n = (case n of Fin q \<Rightarrow> True | NegZero \<Rightarrow> True | _ \<Rightarrow> False)"

text \<open>\<^verbatim>\<open>ToBoolean\<close>: what \<^verbatim>\<open>!v\<close>, \<^verbatim>\<open>v || w\<close>, \<^verbatim>\<open>v && w\<close> and \<^verbatim>\<open>v ? a : b\<close> test.\<close>

fun num_truthy :: "jsnum \<Rightarrow> bool" where
  "num_truthy NaN = False"
| "num_truthy NegZero = False"
| "num_truthy (Fin q) = (q \<noteq> 0)"
| "num_truthy PosInf = True"
| "num_truthy NegInf = True"

fun ToBoolean :: "jsval \<Rightarrow> bool" where
  "ToBoolean Undefined = False"
| "ToBoolean Null = False"
| "ToBoolean (Bool b) = b"
| "ToBoolean (Num n) = num_truthy n"
| "ToBoolean (Str s) = (s \<noteq> [])"
| "ToBoolean (Arr xs) = True"
| "ToBoolean (Obj kvs) = True"

text \<open>\<^verbatim>\<open>a || b\<close> on values, and \<^verbatim>\<open>Number(v) || 0\<close> on the number \<^verbatim>\<open>Number(v)\<close>.\<close>

definition js_or :: "jsval \<Rightarrow> jsval \<Rightarrow> jsval" where
  "js_or a b = (if ToBoolean a then a else b)"

definition or_zero :: "jsnum \<Rightarrow> jsnum" where
  "or_zero n = (if num_truthy n then n else Fin 0)"

text \<open>A step that may throw, followed by what is done with its value.\<close>

definition bind_throw :: "js_error + 'a \<Rightarrow> ('a \<Rightarrow> js_error + 'b) \<Rightarrow> js_error + 'b" where
  "bind_throw m f = (case m of Inl e \<Rightarrow> Inl e | Inr x \<Rightarrow> f x)"

definition has_own :: "(string \<times> jsval) list \<Rightarrow> string \<Rightarrow> bool" where
  "has_own kvs k = (map_of kvs k \<noteq> None)"

text \<open>
  \<^verbatim>\<open>ToString\<close>, as \<^verbatim>\<open>Array.prototype.join\<close>, the conversion of an array to a primitive and the
  conversion of an index to a property key use it. The elements of an array are joined with
  commas, \<^verbatim>\<open>null\<close> and \<^verbatim>\<open>undefined\<close> elements as the empty string. A plain object is
  \<^verbatim>\<open>[object Object]\<close>, by the \<^verbatim>\<open>toString\<close> it inherits; an object with a property \<^verbatim>\<open>toString\<close> of
  its own, which in parsed JSON is no function, cannot be converted: a TypeError (its
  \<^verbatim>\<open>valueOf\<close>, own or inherited, never yields a primitive).
\<close>

fun ToString :: "js_runtime \<Rightarrow> jsval \<Rightarrow> js_error + string"
  and join_comma :: "js_runtime \<Rightarrow> jsval list \<Rightarrow> js_error + string"
where
  "ToString rt Undefined = Inr ''undefined''"
| "ToString rt Null = Inr ''null''"
| "ToString rt (Bool b) = Inr (if b then ''true'' else ''false'')"
| "ToString rt (Num n) = Inr (NumberToString rt n)"
| "ToString rt (Str s) = Inr s"
| "ToString rt (Arr xs) = join_comma rt xs"
| "ToString rt (Obj kvs) =
     (if has_own kvs ''toString'' then Inl TypeError else Inr ''[object Object]'')"
| "join_comma rt [] = Inr []"
| "join_comma rt (x # xs) =
     (case (if x = Undefined \<or> x = Null then Inr [] else ToString rt x) of
        Inl e \<Rightarrow> Inl e
      | Inr s \<Rightarrow>
          if xs = [] then Inr s
          else (case join_comma rt xs of Inl e \<Rightarrow> Inl e | Inr t \<Rightarrow> Inr (s @ '','' @ t)))"

text \<open>
  \<^verbatim>\<open>Number(v)\<close>. An array is converted through its string. A plain object is converted
  through \<^verbatim>\<open>[object Object]\<close>, which is no numeric literal: the result is NaN; with a
  \<^verbatim>\<open>toString\<close> of its own the conversion throws, as above.
\<close>

fun Number :: "js_runtime \<Rightarrow> jsval \<Rightarrow> js_error + jsnum" where
  "Number rt Undefined = Inr NaN"
| "Number rt Null = Inr (Fin 0)"
| "Number rt (Bool b) = Inr (if b then Fin 1 else Fin 0)"
| "Number rt (Num n) = Inr n"
| "Number rt (Str s) = Inr (StringToNumber rt s)"
| "Number rt (Arr xs) = bind_throw (ToString rt (Arr xs)) (\<lambda>s. Inr (StringToNumber rt s))"
| "Number rt (Obj kvs) = (if has_own kvs ''toString'' then Inl TypeError else Inr NaN)"

fun isArray :: "jsval \<Rightarrow> bool" where
  "isArray (Arr xs) = True"
| "isArray v = False"

text \<open>The elements of an array; only read where \<open>isArray\<close> holds.\<close>

fun elems :: "jsval \<Rightarrow> jsval list" where
  "elems (Arr xs) = xs"
| "elems v = []"

text \<open>
  Reading a property \<^verbatim>\<open>v.k\<close> of a value that is neither \<^verbatim>\<open>null\<close> nor \<^verbatim>\<open>undefined\<close>. The keys
  read from responses and detections (\<^verbatim>\<open>count\<close>, \<^verbatim>\<open>detections\<close>, \<^verbatim>\<open>confidence\<close>, \<^verbatim>\<open>bbox\<close>,
  \<^verbatim>\<open>label\<close>, the size fields) are on no built-in prototype, so on a primitive or an array,
  and on an object without the key, the value is \<^verbatim>\<open>undefined\<close>. On \<^verbatim>\<open>null\<close> and \<^verbatim>\<open>undefined\<close>
  the read throws a TypeError: every function below tests \<open>nullish\<close> before its first read.
\<close>

fun js_get :: "jsval \<Rightarrow> string \<Rightarrow> jsval" where
  "js_get (Obj kvs) k = (case map_of kvs k of Some v \<Rightarrow> v | None \<Rightarrow> Undefined)"
| "js_get v k = Undefined"

definition nullish :: "jsval \<Rightarrow> bool" where
  "nullish v = (v = Undefined \<or> v = Null)"

section \<open>Geometry: parseBbox\<close>

text \<open>
  \<^verbatim>\<open>
  const parseBbox = (bbox) => {
    if (!bbox || !Array.isArray(bbox) || bbox.length < 4) { return [0, 0, 0, 0]; }
    return [Number(bbox[0]) || 0, Number(bbox[1]) || 0, Number(bbox[2]) || 0, Number(bbox[3]) || 0];
  };
  \<close>
  The same text in both variants of the component. The four conversions run from left to
  right; the first that throws ends the call.
\<close>

definition parseBbox ::
  "js_runtime \<Rightarrow> jsval \<Rightarrow> js_error + jsnum \<times> jsnum \<times> jsnum \<times> jsnum" where
  "parseBbox rt bbox =
     (if \<not> ToBoolean bbox \<or> \<not> isArray bbox \<or> length (elems bbox) < 4
      then Inr (Fin 0, Fin 0, Fin 0, Fin 0)
      else
        bind_throw (Number rt (elems bbox ! 0)) (\<lambda>x.
        bind_throw (Number rt (elems bbox ! 1)) (\<lambda>y.
        bind_throw (Number rt (elems bbox ! 2)) (\<lambda>w.
        bind_throw (Number rt (elems bbox ! 3)) (\<lambda>h.
          Inr (or_zero x, or_zero y, or_zero w, or_zero h))))))"

section \<open>Result normalisation in sendToBackend\<close>

text \<open>
  The keys \<^verbatim>\<open>width_\<close>\<open>\<mu>\<close>\<^verbatim>\<open>m\<close>, \<^verbatim>\<open>height_\<close>\<open>\<mu>\<close>\<^verbatim>\<open>m\<close> and \<^verbatim>\<open>diagonal_\<close>\<open>\<mu>\<close>\<^verbatim>\<open>m\<close> hold the micro sign, code
  unit 0xB5.
\<close>

definition width_um :: string where
  "width_um = ''width_'' @ [CHR 0xB5] @ ''m''"

definition height_um :: string where
  "height_um = ''height_'' @ [CHR 0xB5] @ ''m''"

definition diagonal_um :: string where
  "diagonal_um = ''diagonal_'' @ [CHR 0xB5] @ ''m''"

text \<open>\<^verbatim>\<open>Array.prototype.map\<close> with a callback that may throw: the first throw ends the map.\<close>

fun map_throw :: "('a \<Rightarrow> js_error + 'b) \<Rightarrow> 'a list \<Rightarrow> js_error + 'b list" where
  "map_throw f [] = Inr []"
| "map_throw f (x # xs) =
     (case f x of
        Inl e \<Rightarrow> Inl e
      | Inr y \<Rightarrow> (case map_throw f xs of Inl e \<Rightarrow> Inl e | Inr ys \<Rightarrow> Inr (y # ys)))"

text \<open>\<^verbatim>\<open>v ? Number(v) : undefined\<close>, the pattern of the five optional size fields.\<close>

definition number_if_truthy :: "js_runtime \<Rightarrow> jsval \<Rightarrow> js_error + jsval" where
  "number_if_truthy rt v =
     (if ToBoolean v then bind_throw (Number rt v) (\<lambda>n. Inr (Num n)) else Inr Undefined)"

text \<open>\<^verbatim>\<open>Array.isArray(d.bbox) ? d.bbox.map(Number) : [0, 0, 0, 0]\<close>\<close>

definition normalizeBbox :: "js_runtime \<Rightarrow> jsval \<Rightarrow> js_error + jsval" where
  "normalizeBbox rt b =
     (if isArray b then bind_throw (map_throw (Number rt) (elems b)) (\<lambda>ns. Inr (Arr (map Num ns)))
      else Inr (Arr [Num (Fin 0), Num (Fin 0), Num (Fin 0), Num (Fin 0)]))"

text \<open>
  The callback of \<^verbatim>\<open>res.data.detections.map((d: any) => ({ ... }))\<close>, lines 203 to 213 of the
  variant with size metrics. Its first step reads \<^verbatim>\<open>d.confidence\<close>, which throws when \<^verbatim>\<open>d\<close>
  is \<^verbatim>\<open>null\<close> or \<^verbatim>\<open>undefined\<close>; the fields are computed in the order of the literal, and each
  conversion to a number may throw.
\<close>

definition normalizeDetection :: "js_runtime \<Rightarrow> jsval \<Rightarrow> js_error + jsval" where
  "normalizeDetection rt d =
     (if nullish d then Inl TypeError
      else
        bind_throw (Number rt (js_get d ''confidence'')) (\<lambda>c.
        bind_throw (normalizeBbox rt (js_get d ''bbox'')) (\<lambda>b.
        bind_throw (number_if_truthy rt (js_get d ''width_px'')) (\<lambda>w_px.
        bind_throw (number_if_truthy rt (js_get d ''height_px'')) (\<lambda>h_px.
        bind_throw (number_if_truthy rt (js_get d width_um)) (\<lambda>w_um.
        bind_throw (number_if_truthy rt (js_get d height_um)) (\<lambda>h_um.
        bind_throw (number_if_truthy rt (js_get d diagonal_um)) (\<lambda>d_um.
          Inr (Obj
            [(''confidence'', Num (or_zero c)),
             (''bbox'', b),
             (''label'', js_or (js_get d ''label'') (Str ''Microplastic'')),
             (''width_px'', w_px),
             (''height_px'', h_px),
             (width_um, w_um),
             (height_um, h_um),
             (diagonal_um, d_um),
             (''size_category'', js_or (js_get d ''size_category'') Undefined)])))))))))"

text \<open>The callback of the variant without size metrics, lines 124 to 128.\<close>

definition normalizeDetection_withoutSize :: "js_runtime \<Rightarrow> jsval \<Rightarrow> js_error + jsval" where
  "normalizeDetection_withoutSize rt d =
     (if nullish d then Inl TypeError
      else
        bind_throw (Number rt (js_get d ''confidence'')) (\<lambda>c.
        bind_throw (normalizeBbox rt (js_get d ''bbox'')) (\<lambda>b.
          Inr (Obj
            [(''confidence'', Num (or_zero c)),
             (''bbox'', b),
             (''label'', js_or (js_get d ''label'') (Str ''Microplastic''))]))))"

definition zero_size_counts :: jsval where
  "zero_size_counts =
     Obj [(''nanoplastic'', Num (Fin 0)), (''small'', Num (Fin 0)),
          (''medium'', Num (Fin 0)), (''large'', Num (Fin 0))]"

text \<open>
  The object literal \<^verbatim>\<open>processedResult\<close>, lines 200 to 224, from \<^verbatim>\<open>res.data\<close> and the clock
  reading \<^verbatim>\<open>new Date().toISOString()\<close>. Reading \<^verbatim>\<open>res.data.count\<close> comes first and throws
  when \<^verbatim>\<open>res.data\<close> is \<^verbatim>\<open>null\<close> or \<^verbatim>\<open>undefined\<close>.
\<close>

definition processedResult :: "js_runtime \<Rightarrow> string \<Rightarrow> jsval \<Rightarrow> js_error + jsval" where
  "processedResult rt now data =
     (if nullish data then Inl TypeError
      else
        (case (if isArray (js_get data ''detections'')
               then map_throw (normalizeDetection rt) (elems (js_get data ''detections''))
               else Inr [])
         of
           Inl e \<Rightarrow> Inl e
         | Inr ds \<Rightarrow> Inr (Obj
             [(''count'', js_or (js_get data ''count'') (Num (Fin 0))),
              (''detections'', Arr ds),
              (''image_size'', js_get data ''image_size''),
              (''size_counts'', js_or (js_get data ''size_counts'') zero_size_counts),
              (''calibration_info'', js_get data ''calibration_info''),
              (''timestamp'', Str now)])))"

text \<open>The same literal in the variant without size metrics, lines 121 to 130.\<close>

definition processedResult_withoutSize :: "js_runtime \<Rightarrow> jsval \<Rightarrow> js_error + jsval" where
  "processedResult_withoutSize rt data =
     (if nullish data then Inl TypeError
      else
        (case (if isArray (js_get data ''detections'')
               then map_throw (normalizeDetection_withoutSize rt) (elems (js_get data ''detections''))
               else Inr [])
         of
           Inl e \<Rightarrow> Inl e
         | Inr ds \<Rightarrow> Inr (Obj
             [(''count'', js_or (js_get data ''count'') (Num (Fin 0))),
              (''detections'', Arr ds)])))"

section \<open>Size classification: getSizeCategoryColor\<close>

text \<open>The table \<^verbatim>\<open>sizeCategoryColors\<close>, an object literal: these are its own properties.\<close>

definition sizeCategoryColors :: "(string \<times> string) list" where
  "sizeCategoryColors =
     [(''nanoplastic'', ''border-red-500 bg-red-500/10 text-red-400''),
      (''small'', ''border-yellow-500 bg-yellow-500/10 text-yellow-400''),
      (''medium'', ''border-blue-500 bg-blue-500/10 text-blue-400''),
      (''large'', ''border-purple-500 bg-purple-500/10 text-purple-400'')]"

text \<open>
  An object literal inherits from \<^verbatim>\<open>Object.prototype\<close>, so \<^verbatim>\<open>sizeCategoryColors[k]\<close> also
  finds the members of the prototype: eleven functions and, under \<^verbatim>\<open>__proto__\<close>, the
  prototype object. All of them are truthy and none is a string.
\<close>

definition Object_prototype_keys :: "string list" where
  "Object_prototype_keys =
     [''constructor'', ''hasOwnProperty'', ''isPrototypeOf'', ''propertyIsEnumerable'',
      ''toLocaleString'', ''toString'', ''valueOf'', ''__proto__'',
      ''__defineGetter__'', ''__defineSetter__'', ''__lookupGetter__'', ''__lookupSetter__'']"

text \<open>
  What the classifier returns: a string of class names, or the member of
  \<^verbatim>\<open>Object.prototype\<close> of the given name.
\<close>

datatype treatment = ClassNames string | PrototypeMember string

definition gray :: string where
  "gray = ''border-gray-500 bg-gray-500/10 text-gray-400''"

text \<open>\<^verbatim>\<open>sizeCategoryColors[k] || 'border-gray-500 bg-gray-500/10 text-gray-400'\<close>. The four
  own values are non-empty strings, hence truthy.\<close>

definition categoryColor :: "string \<Rightarrow> treatment" where
  "categoryColor k =
     (case map_of sizeCategoryColors k of
        Some c \<Rightarrow> ClassNames c
      | None \<Rightarrow> if k \<in> set Object_prototype_keys then PrototypeMember k else ClassNames gray)"

text \<open>
  \<^verbatim>\<open>String.prototype.toLowerCase\<close> on the letters A to Z. Other characters are left as they
  are; the language also lowers letters beyond ASCII, none of them to a letter of
  \<^verbatim>\<open>microplastic\<close>, so the comparison below is the program's.
\<close>

definition toLowerCase_char :: "char \<Rightarrow> char" where
  "toLowerCase_char c =
     (case map_of (zip ''ABCDEFGHIJKLMNOPQRSTUVWXYZ'' ''abcdefghijklmnopqrstuvwxyz'') c of
        Some l \<Rightarrow> l
      | None \<Rightarrow> c)"

definition toLowerCase :: "string \<Rightarrow> string" where
  "toLowerCase s = map toLowerCase_char s"

text \<open>
  \<^verbatim>\<open>v.toLowerCase() === s\<close>: on a string the comparison; on anything else a TypeError
  (\<^verbatim>\<open>null\<close> and \<^verbatim>\<open>undefined\<close> have no properties, and on other values \<^verbatim>\<open>toLowerCase\<close> is no
  function).
\<close>

definition lowercase_equals :: "jsval \<Rightarrow> string \<Rightarrow> js_error + bool" where
  "lowercase_equals v s = (case v of Str l \<Rightarrow> Inr (toLowerCase l = s) | _ \<Rightarrow> Inl TypeError)"

text \<open>
  The literals \<^verbatim>\<open>0.7\<close> and \<^verbatim>\<open>0.4\<close> denote the nearest doubles, which are these rationals;
  \<open>num_gt n q\<close> is \<^verbatim>\<open>n > q\<close>.
\<close>

definition lit_0_7 :: rat where
  "lit_0_7 = 3152519739159347 / 4503599627370496"

definition lit_0_4 :: rat where
  "lit_0_4 = 3602879701896397 / 9007199254740992"

fun num_gt :: "jsnum \<Rightarrow> rat \<Rightarrow> bool" where
  "num_gt NaN q = False"
| "num_gt PosInf q = True"
| "num_gt NegInf q = False"
| "num_gt NegZero q = (0 > q)"
| "num_gt (Fin r) q = (r > q)"

definition green :: string where
  "green = ''border-green-500 bg-green-500/10 text-green-400''"

definition yellow :: string where
  "yellow = ''border-yellow-500 bg-yellow-500/10 text-yellow-400''"

definition red :: string where
  "red = ''border-red-500 bg-red-500/10 text-red-400''"

definition confidenceColor :: "jsnum \<Rightarrow> string" where
  "confidenceColor confidence =
     (if num_gt confidence lit_0_7 then green
      else if num_gt confidence lit_0_4 then yellow
      else red)"

text \<open>
  \<^verbatim>\<open>
  const getSizeCategoryColor = (detection: Detection) => {
    if (detection.size_category && detection.label.toLowerCase() === 'microplastic') {
      return sizeCategoryColors[detection.size_category] || '... gray ...';
    }
    const confidence = Number(detection.confidence) || 0;
    if (confidence > 0.7) { green } else if (confidence > 0.4) { yellow } else { red }
  };
  \<close>
  \<^verbatim>\<open>&&\<close> reads the label only when \<^verbatim>\<open>size_category\<close> is truthy. The index is converted to
  a property key with \<^verbatim>\<open>ToString\<close>, which may throw, as \<^verbatim>\<open>Number\<close> may.
\<close>

definition getSizeCategoryColor :: "js_runtime \<Rightarrow> jsval \<Rightarrow> js_error + treatment" where
  "getSizeCategoryColor rt detection =
     (if nullish detection then Inl TypeError
      else
        (case (if ToBoolean (js_get detection ''size_category'')
               then lowercase_equals (js_get detection ''label'') ''microplastic''
               else Inr False)
         of
           Inl e \<Rightarrow> Inl e
         | Inr True \<Rightarrow>
             bind_throw (ToString rt (js_get detection ''size_category''))
               (\<lambda>k. Inr (categoryColor k))
         | Inr False \<Rightarrow>
             bind_throw (Number rt (js_get detection ''confidence''))
               (\<lambda>confidence. Inr (ClassNames (confidenceColor (or_zero confidence))))))"

section \<open>History and component state\<close>

text \<open>The interface \<^verbatim>\<open>HistoryItem\<close>: \<^verbatim>\<open>id\<close>, \<^verbatim>\<open>timestamp\<close>, \<^verbatim>\<open>result\<close>, \<^verbatim>\<open>imageData\<close>, \<^verbatim>\<open>filename\<close>.\<close>

record HistoryItem =
  item_id :: string
  item_timestamp :: string
  item_result :: jsval
  item_imageData :: string
  item_filename :: string

text \<open>
  \<^verbatim>\<open>
  const saveToHistory = (result, imageData, filename) => {
    const historyItem = { id: Date.now().toString(), timestamp: new Date().toLocaleString(...),
                          result, imageData, filename };
    const updatedHistory = [historyItem, ...history].slice(0, 50);
    setHistory(updatedHistory);
  };
  \<close>
  The two clock readings are arguments. \<open>hist\<close> is the \<^verbatim>\<open>history\<close> the closure sees; the value is
  what \<^verbatim>\<open>setHistory\<close> receives.
\<close>

definition saveToHistory ::
  "string \<Rightarrow> string \<Rightarrow> jsval \<Rightarrow> string \<Rightarrow> string \<Rightarrow> HistoryItem list \<Rightarrow> HistoryItem list" where
  "saveToHistory nowId nowLocale res imageData filename hist =
     (let historyItem = \<lparr>item_id = nowId, item_timestamp = nowLocale, item_result = res,
                          item_imageData = imageData, item_filename = filename\<rparr>
      in take 50 (historyItem # hist))"

text \<open>\<^verbatim>\<open>history.filter(item => item.id !== id)\<close>, the value \<^verbatim>\<open>deleteHistoryItem\<close> passes to
  \<^verbatim>\<open>setHistory\<close>.\<close>

definition deleteHistoryItem :: "string \<Rightarrow> HistoryItem list \<Rightarrow> HistoryItem list" where
  "deleteHistoryItem i hist = filter (\<lambda>item. item_id item \<noteq> i) hist"

text \<open>
  What \<^verbatim>\<open>JSON.parse\<close> reads back from the text \<^verbatim>\<open>JSON.stringify\<close> writes for a value. NaN and
  the infinities are written as \<^verbatim>\<open>null\<close>, negative zero as \<^verbatim>\<open>0\<close>; an \<^verbatim>\<open>undefined\<close> element of
  an array is written as \<^verbatim>\<open>null\<close>; a property whose value is \<^verbatim>\<open>undefined\<close> is left out. Of the
  entries of a property list only the first of each key is a property of the object.
\<close>

fun own_props :: "string list \<Rightarrow> (string \<times> 'a) list \<Rightarrow> (string \<times> 'a) list" where
  "own_props seen [] = []"
| "own_props seen ((k, v) # ps) =
     (if k \<in> set seen then own_props seen ps else (k, v) # own_props (k # seen) ps)"

fun json_value :: "jsval \<Rightarrow> jsval"
  and json_elems :: "jsval list \<Rightarrow> jsval list"
  and json_props :: "(string \<times> jsval) list \<Rightarrow> (string \<times> jsval) list"
where
  "json_value (Num n) =
     (if n = NaN \<or> n = PosInf \<or> n = NegInf then Null
      else if n = NegZero then Num (Fin 0)
      else Num n)"
| "json_value (Arr xs) = Arr (json_elems xs)"
| "json_value (Obj kvs) =
     Obj (filter (\<lambda>p. snd p \<noteq> Undefined) (own_props [] (json_props kvs)))"
| "json_value Undefined = Undefined"
| "json_value Null = Null"
| "json_value (Bool b) = Bool b"
| "json_value (Str s) = Str s"
| "json_elems [] = []"
| "json_elems (x # xs) = (if x = Undefined then Null else json_value x) # json_elems xs"
| "json_props [] = []"
| "json_props ((k, v) # kvs) = (k, json_value v) # json_props kvs"

text \<open>A history item as it is read back: its four strings as they are, its result as above.\<close>

definition stored_item :: "HistoryItem \<Rightarrow> HistoryItem" where
  "stored_item item = item\<lparr>item_result := json_value (item_result item)\<rparr>"

text \<open>
  The slot \<^verbatim>\<open>microplasticsHistory\<close> of local storage: absent, a text that does not parse, or
  a text that parses to the given list of items.
\<close>

datatype blob = Unparseable | Serialized "HistoryItem list"

text \<open>A timer set by \<^verbatim>\<open>sendToBackend\<close>: the result to save and the \<^verbatim>\<open>image\<close> and \<^verbatim>\<open>history\<close> its
  closure holds.\<close>

record pending_save =
  ps_result :: jsval
  ps_image :: "string option"
  ps_history :: "HistoryItem list"

text \<open>The state of the component that the functions below read and write, with the storage
  slot, the alerts shown and the timers set.\<close>

record ui_state =
  image :: "string option"
  result :: jsval
  loading :: bool
  imageDimensions :: "(jsnum \<times> jsnum) option"
  history :: "HistoryItem list"
  localStorage :: "blob option"
  alerts :: "string list"
  timers :: "pending_save list"

text \<open>
  The effect on mount, lines 81 to 90: a blob that parses replaces the history; an absent
  slot and a blob that does not parse leave it.
\<close>

definition load_effect :: "ui_state \<Rightarrow> ui_state" where
  "load_effect s =
     (case localStorage s of
        Some (Serialized h) \<Rightarrow> s\<lparr>history := h\<rparr>
      | _ \<Rightarrow> s)"

text \<open>
  The effect that runs after every render in which \<^verbatim>\<open>history\<close> is a new array, lines 93 to 97:
  \<^verbatim>\<open>if (history.length > 0) localStorage.setItem('microplasticsHistory', JSON.stringify(history))\<close>
\<close>

definition save_effect :: "ui_state \<Rightarrow> ui_state" where
  "save_effect s =
     (if length (history s) > 0
      then s\<lparr>localStorage := Some (Serialized (map stored_item (history s)))\<rparr>
      else s)"

text \<open>The three mutations as the user triggers them, each followed by the render's effect.\<close>

definition save_clicked ::
  "string \<Rightarrow> string \<Rightarrow> jsval \<Rightarrow> string \<Rightarrow> string \<Rightarrow> ui_state \<Rightarrow> ui_state" where
  "save_clicked nowId nowLocale res imageData filename s =
     save_effect (s\<lparr>history := saveToHistory nowId nowLocale res imageData filename (history s)\<rparr>)"

definition delete_clicked :: "string \<Rightarrow> ui_state \<Rightarrow> ui_state" where
  "delete_clicked i s = save_effect (s\<lparr>history := deleteHistoryItem i (history s)\<rparr>)"

text \<open>
  \<^verbatim>\<open>clearAllHistory\<close>: when the user confirms, \<^verbatim>\<open>setHistory([])\<close> and
  \<^verbatim>\<open>localStorage.removeItem('microplasticsHistory')\<close>.
\<close>

definition clearAllHistory :: "bool \<Rightarrow> ui_state \<Rightarrow> ui_state" where
  "clearAllHistory confirmed s =
     (if confirmed then s\<lparr>history := [], localStorage := None\<rparr> else s)"

definition clear_clicked :: "bool \<Rightarrow> ui_state \<Rightarrow> ui_state" where
  "clear_clicked confirmed s =
     (if confirmed then save_effect (clearAllHistory confirmed s) else clearAllHistory confirmed s)"

text \<open>The history a fresh start of the component would load from the slot.\<close>

definition persisted :: "ui_state \<Rightarrow> HistoryItem list" where
  "persisted s = (case localStorage s of Some (Serialized h) \<Rightarrow> h | _ \<Rightarrow> [])"

section \<open>sendToBackend\<close>

text \<open>
  \<^verbatim>\<open>
  setLoading(true); setResult(null); setImageDimensions(null);
  try {
    const res = await axios.post(...);
    const processedResult = { ... };
    setResult(processedResult);
    setTimeout(() => { if (image) saveToHistory(processedResult, image, ...) }, 500);
  } catch (err) { console.error(...); alert("Detection failed. Please try again."); }
  finally { setLoading(false); }
  \<close>
  \<open>response\<close> is how the awaited request ended: rejected, or fulfilled with \<^verbatim>\<open>res.data\<close>.
  \<open>s\<close> is the state of the render whose closure runs, and the state returned is \<open>s\<close> with
  the updates the function has made when it has run to its end.
\<close>

definition detection_failed :: "ui_state \<Rightarrow> ui_state" where
  "detection_failed s = s\<lparr>alerts := alerts s @ [''Detection failed. Please try again.'']\<rparr>"

definition sendToBackend ::
  "js_runtime \<Rightarrow> string \<Rightarrow> js_error + jsval \<Rightarrow> ui_state \<Rightarrow> ui_state" where
  "sendToBackend rt now response s =
     (let s1 = s\<lparr>loading := True, result := Null, imageDimensions := None\<rparr>;
          s2 = (case response of
                  Inl err \<Rightarrow> detection_failed s1
                | Inr data \<Rightarrow>
                    (case processedResult rt now data of
                       Inl err \<Rightarrow> detection_failed s1
                     | Inr pr \<Rightarrow>
                         s1\<lparr>result := pr,
                            timers := timers s1 @
                              [\<lparr>ps_result = pr, ps_image = image s, ps_history = history s\<rparr>]\<rparr>))
      in s2\<lparr>loading := False\<rparr>)"

text \<open>The same function in the variant without size metrics, lines 106 to 139: no timer.\<close>

definition sendToBackend_withoutSize ::
  "js_runtime \<Rightarrow> js_error + jsval \<Rightarrow> ui_state \<Rightarrow> ui_state" where
  "sendToBackend_withoutSize rt response s =
     (let s1 = s\<lparr>loading := True, result := Null, imageDimensions := None\<rparr>;
          s2 = (case response of
                  Inl err \<Rightarrow> detection_failed s1
                | Inr data \<Rightarrow>
                    (case processedResult_withoutSize rt data of
                       Inl err \<Rightarrow> detection_failed s1
                     | Inr pr \<Rightarrow> s1\<lparr>result := pr\<rparr>))
      in s2\<lparr>loading := False\<rparr>)"

text \<open>
  The timer's callback, half a second later:
  \<^verbatim>\<open>if (image) saveToHistory(processedResult, image, `detection_${Date.now()}.jpg`)\<close>
  with the closure's \<^verbatim>\<open>image\<close> and \<^verbatim>\<open>history\<close>; an empty string is falsy.
\<close>

definition timer_fired ::
  "string \<Rightarrow> string \<Rightarrow> string \<Rightarrow> pending_save \<Rightarrow> ui_state \<Rightarrow> ui_state" where
  "timer_fired nowId nowLocale filename p s =
     (case ps_image p of
        None \<Rightarrow> s
      | Some img \<Rightarrow>
          if img = [] then s
          else s\<lparr>history := saveToHistory nowId nowLocale (ps_result p) img filename (ps_history p)\<rparr>)"

section \<open>Notions used to state the properties\<close>

text \<open>
  The values that \<^verbatim>\<open>Number\<close> and \<^verbatim>\<open>ToString\<close> convert without a throw: all but the objects
  with a \<^verbatim>\<open>toString\<close> of their own and the arrays that hold, at any depth, one of these.
\<close>

fun convertible :: "jsval \<Rightarrow> bool" where
  "convertible (Obj kvs) = (\<not> has_own kvs ''toString'')"
| "convertible (Arr xs) = list_all convertible xs"
| "convertible v = True"

text \<open>The four components of a box, in order.\<close>

definition components :: "jsnum \<times> jsnum \<times> jsnum \<times> jsnum \<Rightarrow> jsnum list" where
  "components t = (case t of (x, y, w, h) \<Rightarrow> [x, y, w, h])"

text \<open>
  The five optional size fields of a detection, and the results in which each of them is
  either \<^verbatim>\<open>undefined\<close> or truthy (a number other than NaN and zero).
\<close>

definition metric_keys :: "string list" where
  "metric_keys = [''width_px'', ''height_px'', width_um, height_um, diagonal_um]"

definition metrics_settled :: "jsval \<Rightarrow> bool" where
  "metrics_settled r =
     list_all (\<lambda>d. list_all (\<lambda>k. js_get d k = Undefined \<or> ToBoolean (js_get d k)) metric_keys)
       (elems (js_get r ''detections''))"

text \<open>
  A call of \<^verbatim>\<open>saveToHistory\<close> is its two clock readings and its three arguments; \<open>mk_item\<close> is
  the item the call builds. \<open>save_all\<close> runs calls one after the other, each on the
  history the one before it has set.
\<close>

definition mk_item :: "string \<times> string \<times> jsval \<times> string \<times> string \<Rightarrow> HistoryItem" where
  "mk_item c =
     (case c of (i, t, r, d, f) \<Rightarrow>
        \<lparr>item_id = i, item_timestamp = t, item_result = r, item_imageData = d,
         item_filename = f\<rparr>)"

fun save_all ::
  "(string \<times> string \<times> jsval \<times> string \<times> string) list \<Rightarrow> HistoryItem list \<Rightarrow> HistoryItem list"
where
  "save_all [] hist = hist"
| "save_all ((i, t, r, d, f) # calls) hist = save_all calls (saveToHistory i t r d f hist)"

section \<open>Auxiliary facts\<close>

lemmas key_defs = width_um_def height_um_def diagonal_um_def

lemma bind_throw_simps [simp]:
  "bind_throw (Inr x) f = f x" "bind_throw (Inl e) f = Inl e"
  by (simp_all add: bind_throw_def)

lemma bind_throw_Inr: "bind_throw m f = Inr y \<longleftrightarrow> (\<exists>x. m = Inr x \<and> f x = Inr y)"
  by (cases m) (simp_all add: bind_throw_def)

text \<open>\<open>ToString\<close> and \<open>Number\<close> return exactly on the convertible values, and throw a
  TypeError on the others.\<close>

lemma ToString_convertible:
  "(convertible v \<longrightarrow> (\<exists>s. ToString rt v = Inr s)) \<and> (\<not> convertible v \<longrightarrow> ToString rt v = Inl TypeError)"
  "(list_all convertible xs \<longrightarrow> (\<exists>s. join_comma rt xs = Inr s)) \<and>
   (\<not> list_all convertible xs \<longrightarrow> join_comma rt xs = Inl TypeError)"
proof (induction rt v and rt xs rule: ToString_join_comma.induct)
  case (9 rt x xs)
  then show ?case
    by (cases x) (auto split: sum.splits)
qed simp_all

lemma Number_convertible:
  "convertible v \<Longrightarrow> \<exists>n. Number rt v = Inr n"
  "\<not> convertible v \<Longrightarrow> Number rt v = Inl TypeError"
  using ToString_convertible(1) [of v rt]
  by (cases v; auto)+

lemma or_zero_not_NaN: "or_zero n \<noteq> NaN"
  by (cases n) (simp_all add: or_zero_def)

lemma or_zero_finite: "is_finite n \<Longrightarrow> is_finite (or_zero n)"
  by (cases n) (simp_all add: or_zero_def is_finite_def)

lemma or_zero_again: "or_zero (or_zero n) = or_zero n"
  by (cases n) (simp_all add: or_zero_def)

lemma js_or_again: "ToBoolean b \<or> b = Undefined \<Longrightarrow> js_or (js_or a b) b = js_or a b"
  by (auto simp: js_or_def)

lemma map_throw_Num: "map_throw (Number rt) (map Num ns) = Inr ns"
  by (induction ns) simp_all

lemma normalizeBbox_again:
  "normalizeBbox rt b = Inr b' \<Longrightarrow> normalizeBbox rt b' = Inr b'"
  by (auto simp: normalizeBbox_def bind_throw_Inr map_throw_Num split: if_splits)

lemma number_if_truthy_again:
  "number_if_truthy rt v = Inr m \<Longrightarrow> m = Undefined \<or> ToBoolean m \<Longrightarrow>
   number_if_truthy rt m = Inr m"
  by (auto simp: number_if_truthy_def bind_throw_Inr split: if_splits)

text \<open>A primitive element of the detections array gets every default. An element with a
  field that cannot be converted makes the normalisation throw.\<close>

lemma normalizeDetection_primitive:
  "normalizeDetection rt (Num n) =
     Inr (Obj [(''confidence'', Num (Fin 0)),
               (''bbox'', Arr [Num (Fin 0), Num (Fin 0), Num (Fin 0), Num (Fin 0)]),
               (''label'', Str ''Microplastic''),
               (''width_px'', Undefined), (''height_px'', Undefined),
               (width_um, Undefined), (height_um, Undefined), (diagonal_um, Undefined),
               (''size_category'', Undefined)])"
  by (simp add: normalizeDetection_def nullish_def or_zero_def normalizeBbox_def js_or_def
      number_if_truthy_def)

lemma processedResult_keeps_number_label:
  "\<exists>r. processedResult rt now
          (Obj [(''count'', Num (Fin 1)),
                (''detections'', Arr [Obj [(''confidence'', Num (Fin (3 / 4))),
                                          (''label'', Num (Fin 5)),
                                          (''size_category'', Str ''large'')]])]) = Inr r \<and>
        js_get (hd (elems (js_get r ''detections''))) ''label'' = Num (Fin 5) \<and>
        js_get (hd (elems (js_get r ''detections''))) ''size_category'' = Str ''large''"
  by (simp add: processedResult_def normalizeDetection_def nullish_def normalizeBbox_def
      number_if_truthy_def js_or_def key_defs)

lemma unconvertible_field_throws:
  "processedResult rt now
     (Obj [(''count'', Num (Fin 1)),
           (''detections'', Arr [Obj [(''confidence'', Obj [(''toString'', Null)])]])]) =
     Inl TypeError"
  by (simp add: processedResult_def normalizeDetection_def nullish_def has_own_def)

text \<open>Normalising a normalised detection whose size fields are settled changes nothing.\<close>

lemma normalizeDetection_again:
  assumes "normalizeDetection rt d = Inr d'"
    and "list_all (\<lambda>k. js_get d' k = Undefined \<or> ToBoolean (js_get d' k)) metric_keys"
  shows "normalizeDetection rt d' = Inr d'"
proof -
  from assms(1) have nd: "\<not> nullish d"
    by (auto simp: normalizeDetection_def split: if_splits)
  with assms(1) obtain c b m1 m2 m3 m4 m5 where
        c: "Number rt (js_get d ''confidence'') = Inr c"
    and b: "normalizeBbox rt (js_get d ''bbox'') = Inr b"
    and m1: "number_if_truthy rt (js_get d ''width_px'') = Inr m1"
    and m2: "number_if_truthy rt (js_get d ''height_px'') = Inr m2"
    and m3: "number_if_truthy rt (js_get d width_um) = Inr m3"
    and m4: "number_if_truthy rt (js_get d height_um) = Inr m4"
    and m5: "number_if_truthy rt (js_get d diagonal_um) = Inr m5"
    and d': "d' = Obj
        [(''confidence'', Num (or_zero c)),
         (''bbox'', b),
         (''label'', js_or (js_get d ''label'') (Str ''Microplastic'')),
         (''width_px'', m1),
         (''height_px'', m2),
         (width_um, m3),
         (height_um, m4),
         (diagonal_um, m5),
         (''size_category'', js_or (js_get d ''size_category'') Undefined)]"
    by (auto simp: normalizeDetection_def bind_throw_Inr)
  have g: "js_get d' ''confidence'' = Num (or_zero c)"
    "js_get d' ''bbox'' = b"
    "js_get d' ''label'' = js_or (js_get d ''label'') (Str ''Microplastic'')"
    "js_get d' ''width_px'' = m1"
    "js_get d' ''height_px'' = m2"
    "js_get d' width_um = m3"
    "js_get d' height_um = m4"
    "js_get d' diagonal_um = m5"
    "js_get d' ''size_category'' = js_or (js_get d ''size_category'') Undefined"
    by (simp_all add: d' key_defs)
  from assms(2) have m:
    "m1 = Undefined \<or> ToBoolean m1" "m2 = Undefined \<or> ToBoolean m2"
    "m3 = Undefined \<or> ToBoolean m3" "m4 = Undefined \<or> ToBoolean m4"
    "m5 = Undefined \<or> ToBoolean m5"
    unfolding metric_keys_def by (simp_all add: g)
  have n: "\<not> nullish d'" by (simp add: d' nullish_def)
  have "normalizeDetection rt d' = Inr (Obj
        [(''confidence'', Num (or_zero (or_zero c))),
         (''bbox'', b),
         (''label'', js_or (js_or (js_get d ''label'') (Str ''Microplastic'')) (Str ''Microplastic'')),
         (''width_px'', m1),
         (''height_px'', m2),
         (width_um, m3),
         (height_um, m4),
         (diagonal_um, m5),
         (''size_category'', js_or (js_or (js_get d ''size_category'') Undefined) Undefined)])"
    using n unfolding normalizeDetection_def g
    by (simp add: normalizeBbox_again [OF b] number_if_truthy_again [OF m1 m(1)]
        number_if_truthy_again [OF m2 m(2)] number_if_truthy_again [OF m3 m(3)]
        number_if_truthy_again [OF m4 m(4)] number_if_truthy_again [OF m5 m(5)])
  also have "\<dots> = Inr d'"
    by (simp add: d' or_zero_again js_or_again)
  finally show ?thesis .
qed

lemma map_throw_again:
  assumes "map_throw (normalizeDetection rt) xs = Inr ys"
    and "list_all (\<lambda>d. list_all (\<lambda>k. js_get d k = Undefined \<or> ToBoolean (js_get d k)) metric_keys) ys"
  shows "map_throw (normalizeDetection rt) ys = Inr ys"
  using assms
proof (induction xs arbitrary: ys)
  case Nil
  then show ?case by simp
next
  case (Cons x xs)
  from Cons.prems(1) obtain y zs where y: "normalizeDetection rt x = Inr y"
    and zs: "map_throw (normalizeDetection rt) xs = Inr zs" and ys: "ys = y # zs"
    by (auto split: sum.splits)
  from Cons.prems(2) ys have 1: "normalizeDetection rt y = Inr y"
    using normalizeDetection_again [OF y] by simp
  from Cons.prems(2) ys have 2: "map_throw (normalizeDetection rt) zs = Inr zs"
    using Cons.IH [OF zs] by simp
  show ?case by (simp add: ys 1 2)
qed

text \<open>The history after a run of calls: the items newest first, cut at fifty.\<close>

lemma saveToHistory_eq:
  "saveToHistory i t r d f hist = take 50 (mk_item (i, t, r, d, f) # hist)"
  by (simp add: saveToHistory_def mk_item_def)

lemma take_append_take:
  "n \<le> length xs + m \<Longrightarrow> take n (xs @ take m ys) = take n (xs @ ys)"
  by (auto simp: min_def)

lemma save_all_eq:
  "length hist \<le> 50 \<Longrightarrow> save_all calls hist = take 50 (rev (map mk_item calls) @ hist)"
proof (induction calls arbitrary: hist)
  case Nil
  then show ?case by simp
next
  case (Cons c calls)
  obtain i t r d f where c: "c = (i, t, r, d, f)" by (cases c) auto
  let ?h = "take 50 (mk_item c # hist)"
  have "save_all (c # calls) hist = save_all calls ?h"
    by (simp add: c saveToHistory_eq)
  also have "\<dots> = take 50 (rev (map mk_item calls) @ ?h)"
    by (rule Cons.IH) simp
  also have "\<dots> = take 50 (rev (map mk_item calls) @ mk_item c # hist)"
    by (rule take_append_take) simp
  finally show ?case by simp
qed

lemma filter_other_ids:
  "distinct (map f xs) \<Longrightarrow> length xs \<le> Suc (length (filter (\<lambda>x. f x \<noteq> i) xs))"
proof (induction xs)
  case Nil
  then show ?case by simp
next
  case (Cons x xs)
  show ?case
  proof (cases "f x = i")
    case True
    with Cons.prems have "\<forall>y \<in> set xs. f y \<noteq> i" by (auto simp: image_iff)
    then have "filter (\<lambda>x. f x \<noteq> i) xs = xs" by (simp add: filter_id_conv)
    with True show ?thesis by simp
  next
    case False
    with Cons show ?thesis by simp
  qed
qed

text \<open>After a save, a confirmed clear, and a delete that leaves an entry, the slot holds the
  history as its text reads back. A result without NaN, infinities, negative zero and
  \<^verbatim>\<open>undefined\<close> reads back as it is; one with NaN does not.\<close>

lemma persisted_after_save:
  "persisted (save_clicked i t r d f s) = map stored_item (history (save_clicked i t r d f s))"
  by (simp add: save_clicked_def save_effect_def persisted_def saveToHistory_def)

text \<open>Reading a property of a value read back gives what the property reads back as.\<close>

lemma map_of_json_props: "map_of (json_props kvs) k = map_option json_value (map_of kvs k)"
  by (induction kvs) auto

lemma map_of_own_props:
  "map_of (filter (\<lambda>p. snd p \<noteq> Undefined) (own_props seen ps)) k =
     (if k \<in> set seen then None
      else (case map_of ps k of
              None \<Rightarrow> None
            | Some v \<Rightarrow> if v = Undefined then None else Some v))"
proof (induction ps arbitrary: seen k)
  case Nil
  then show ?case by simp
next
  case (Cons p ps)
  obtain k' v where p: "p = (k', v)" by (cases p) auto
  show ?case
    by (cases "k' \<in> set seen") (auto simp: p Cons.IH split: option.splits)
qed

lemma js_get_json_value:
  "js_get (json_value v) k = json_value (js_get v k)"
proof (cases v)
  case (Obj kvs)
  then show ?thesis
    by (cases "map_of kvs k") (simp_all add: map_of_own_props map_of_json_props)
qed simp_all

lemma json_value_example:
  "json_value (Obj [(''count'', Num (Fin 2)), (''bbox'', Arr [Num NaN, Undefined, Num PosInf]),
                    (''width_px'', Undefined), (''label'', Str ''fiber'')]) =
     Obj [(''count'', Num (Fin 2)), (''bbox'', Arr [Null, Null, Null]), (''label'', Str ''fiber'')]"
  by simp

lemma persisted_after_clear:
  "persisted (clear_clicked True s) = map stored_item (history (clear_clicked True s))"
  by (simp add: clear_clicked_def clearAllHistory_def save_effect_def persisted_def)

lemma persisted_after_delete:
  "deleteHistoryItem i (history s) \<noteq> [] \<Longrightarrow>
   persisted (delete_clicked i s) = map stored_item (history (delete_clicked i s))"
  by (simp add: delete_clicked_def save_effect_def persisted_def)

text \<open>A category that is neither in the table nor a member of the prototype is gray.\<close>

lemma categoryColor_gray:
  "map_of sizeCategoryColors k = None \<Longrightarrow> k \<notin> set Object_prototype_keys \<Longrightarrow>
   categoryColor k = ClassNames gray"
  by (simp add: categoryColor_def)

section \<open>The claims\<close>

subsection \<open>C1: parseBbox\<close>

text \<open>
  C1, as the code has it. \<open>parseBbox\<close> returns \<open>(0, 0, 0, 0)\<close> when \<open>raw\<close> is falsy, is no
  array or has fewer than four elements. When \<open>raw\<close> is an array of at least four elements
  and its first four are convertible, \<open>parseBbox\<close> returns four numbers none of which is
  NaN: component \<open>i\<close> is \<^verbatim>\<open>Number(raw[i])\<close>, replaced by 0 when that is NaN or zero. So a
  component that is no number becomes 0, and a component is finite whenever \<^verbatim>\<open>Number(raw[i])\<close>
  is; an infinite one stays infinite.
\<close>

theorem parseBbox_defaults_never_NaN:
  "(\<not> ToBoolean raw \<or> \<not> isArray raw \<or> length (elems raw) < 4 \<longrightarrow>
      parseBbox rt raw = Inr (Fin 0, Fin 0, Fin 0, Fin 0)) \<and>
   (isArray raw \<and> 4 \<le> length (elems raw) \<and> list_all convertible (take 4 (elems raw)) \<longrightarrow>
      (\<exists>t. parseBbox rt raw = Inr t \<and>
           (\<forall>c \<in> set (components t). c \<noteq> NaN) \<and>
           (\<forall>i < 4. \<exists>n. Number rt (elems raw ! i) = Inr n \<and>
              components t ! i = (if num_truthy n then n else Fin 0) \<and>
              (n = NaN \<longrightarrow> components t ! i = Fin 0) \<and>
              (is_finite n \<longrightarrow> is_finite (components t ! i)))))"
proof (intro conjI impI)
  assume "\<not> ToBoolean raw \<or> \<not> isArray raw \<or> length (elems raw) < 4"
  then show "parseBbox rt raw = Inr (Fin 0, Fin 0, Fin 0, Fin 0)"
    by (simp add: parseBbox_def)
next
  assume a: "isArray raw \<and> 4 \<le> length (elems raw) \<and> list_all convertible (take 4 (elems raw))"
  then obtain xs where raw: "raw = Arr xs" by (cases raw) auto
  from a raw have len: "4 \<le> length xs" and conv: "list_all convertible (take 4 xs)" by simp_all
  have "\<forall>i < 4. convertible (xs ! i)"
  proof (intro allI impI)
    fix i :: nat assume "i < 4"
    with len have "xs ! i \<in> set (take 4 xs)"
      by (metis length_take min.absorb2 nth_mem nth_take)
    with conv show "convertible (xs ! i)" by (simp add: list_all_iff)
  qed
  then have "convertible (xs ! 0)" "convertible (xs ! 1)" "convertible (xs ! 2)" "convertible (xs ! 3)"
    by simp_all
  then obtain x y w h where n: "Number rt (xs ! 0) = Inr x" "Number rt (xs ! 1) = Inr y"
    "Number rt (xs ! 2) = Inr w" "Number rt (xs ! 3) = Inr h"
    using Number_convertible(1) by metis
  let ?t = "(or_zero x, or_zero y, or_zero w, or_zero h)"
  from len n have p: "parseBbox rt raw = Inr ?t"
    by (simp add: parseBbox_def raw)
  have nn: "\<forall>c \<in> set (components ?t). c \<noteq> NaN"
    by (simp add: components_def or_zero_not_NaN)
  have each: "\<exists>n. Number rt (elems raw ! i) = Inr n \<and>
              components ?t ! i = (if num_truthy n then n else Fin 0) \<and>
              (n = NaN \<longrightarrow> components ?t ! i = Fin 0) \<and>
              (is_finite n \<longrightarrow> is_finite (components ?t ! i))" if "i < 4" for i
  proof -
    have k: "\<exists>n. Number rt (xs ! j) = Inr n \<and>
              or_zero m = (if num_truthy n then n else Fin 0) \<and>
              (n = NaN \<longrightarrow> or_zero m = Fin 0) \<and>
              (is_finite n \<longrightarrow> is_finite (or_zero m))" if "Number rt (xs ! j) = Inr m" for j m
      using that by (cases m) (simp_all add: or_zero_def is_finite_def)
    from that have "i = 0 \<or> i = 1 \<or> i = 2 \<or> i = 3" by arith
    then show ?thesis
      using k [OF n(1)] k [OF n(2)] k [OF n(3)] k [OF n(4)]
      by (elim disjE) (simp_all add: raw components_def)
  qed
  from p nn each show "\<exists>t. parseBbox rt raw = Inr t \<and>
           (\<forall>c \<in> set (components t). c \<noteq> NaN) \<and>
           (\<forall>i < 4. \<exists>n. Number rt (elems raw ! i) = Inr n \<and>
              components t ! i = (if num_truthy n then n else Fin 0) \<and>
              (n = NaN \<longrightarrow> components t ! i = Fin 0) \<and>
              (is_finite n \<longrightarrow> is_finite (components t ! i)))"
    by blast
qed

text \<open>
  The claim as written promises finite numbers. For the box \<^verbatim>\<open>[Infinity, 0, 0, 0]\<close> (what
  \<^verbatim>\<open>JSON.parse\<close> makes of \<^verbatim>\<open>[1e999, 0, 0, 0]\<close>) the first component returned is infinite.
\<close>

theorem parseBbox_infinite_component:
  "\<forall>rt. parseBbox rt (Arr [Num PosInf, Num (Fin 0), Num (Fin 0), Num (Fin 0)]) =
           Inr (PosInf, Fin 0, Fin 0, Fin 0) \<and>
        \<not> is_finite PosInf"
  by (simp add: parseBbox_def or_zero_def is_finite_def)

text \<open>The theorem at a box with a finite, a missing, a NaN and a boolean component, and at two
  values that are no box.\<close>

theorem parseBbox_defaults_witness:
  "\<forall>rt. parseBbox rt (Arr [Num (Fin (1 / 10)), Undefined, Num NaN, Bool True]) =
           Inr (Fin (1 / 10), Fin 0, Fin 0, Fin 1) \<and>
        parseBbox rt Null = Inr (Fin 0, Fin 0, Fin 0, Fin 0) \<and>
        parseBbox rt (Arr [Num (Fin 1), Num (Fin 2), Num (Fin 3)]) =
           Inr (Fin 0, Fin 0, Fin 0, Fin 0)"
proof (intro allI conjI)
  fix rt
  let ?b = "Arr [Num (Fin (1 / 10)), Undefined, Num NaN, Bool True]"
  have h: "isArray ?b \<and> 4 \<le> length (elems ?b) \<and> list_all convertible (take 4 (elems ?b))"
    by simp
  have "\<exists>t. parseBbox rt ?b = Inr t \<and>
           (\<forall>c \<in> set (components t). c \<noteq> NaN) \<and>
           (\<forall>i < 4. \<exists>n. Number rt (elems ?b ! i) = Inr n \<and>
              components t ! i = (if num_truthy n then n else Fin 0) \<and>
              (n = NaN \<longrightarrow> components t ! i = Fin 0) \<and>
              (is_finite n \<longrightarrow> is_finite (components t ! i)))"
    using parseBbox_defaults_never_NaN [of ?b rt, THEN conjunct2, rule_format, OF h] .
  then obtain t where T: "parseBbox rt ?b = Inr t \<and>
           (\<forall>c \<in> set (components t). c \<noteq> NaN) \<and>
           (\<forall>i < 4. \<exists>n. Number rt (elems ?b ! i) = Inr n \<and>
              components t ! i = (if num_truthy n then n else Fin 0) \<and>
              (n = NaN \<longrightarrow> components t ! i = Fin 0) \<and>
              (is_finite n \<longrightarrow> is_finite (components t ! i)))" ..
  note t = T [THEN conjunct1] and each = T [THEN conjunct2, THEN conjunct2, rule_format]
  have c0: "components t ! 0 = Fin (1 / 10)" using each [of 0] by simp
  have c1: "components t ! 1 = Fin 0" using each [of 1] by simp
  have c2: "components t ! 2 = Fin 0" using each [of 2] by simp
  have c3: "components t ! 3 = Fin 1" using each [of 3] by simp
  obtain x y w h' where tt: "t = (x, y, w, h')" by (cases t) auto
  from c0 c1 c2 c3 have "t = (Fin (1 / 10), Fin 0, Fin 0, Fin 1)"
    by (simp add: tt components_def)
  with t show "parseBbox rt ?b = Inr (Fin (1 / 10), Fin 0, Fin 0, Fin 1)"
    by simp
  show "parseBbox rt Null = Inr (Fin 0, Fin 0, Fin 0, Fin 0)"
    using parseBbox_defaults_never_NaN [of Null rt, THEN conjunct1] by simp
  show "parseBbox rt (Arr [Num (Fin 1), Num (Fin 2), Num (Fin 3)]) =
          Inr (Fin 0, Fin 0, Fin 0, Fin 0)"
    using parseBbox_defaults_never_NaN
      [of "Arr [Num (Fin 1), Num (Fin 2), Num (Fin 3)]" rt, THEN conjunct1]
    by simp
qed

subsection \<open>C2: a malformed element of the detections array\<close>

text \<open>
  C2 says that normalisation never throws and that one malformed element only falls back to
  its defaults. On the response \<^verbatim>\<open>{count: 1, detections: [null]}\<close> the callback reads
  \<^verbatim>\<open>d.confidence\<close> of \<^verbatim>\<open>null\<close>: a TypeError, in both variants. \<^verbatim>\<open>sendToBackend\<close> catches it as
  a failed detection, so no result is shown and the whole response is lost.
\<close>

theorem null_detection_discards_response:
  "processedResult rt now (Obj [(''count'', Num (Fin 1)), (''detections'', Arr [Null])]) =
     Inl TypeError \<and>
   processedResult_withoutSize rt (Obj [(''count'', Num (Fin 1)), (''detections'', Arr [Null])]) =
     Inl TypeError \<and>
   result (sendToBackend rt now
             (Inr (Obj [(''count'', Num (Fin 1)), (''detections'', Arr [Null])])) s) = Null \<and>
   alerts (sendToBackend rt now
             (Inr (Obj [(''count'', Num (Fin 1)), (''detections'', Arr [Null])])) s) =
     alerts s @ [''Detection failed. Please try again.'']"
  by (simp add: processedResult_def processedResult_withoutSize_def normalizeDetection_def
      normalizeDetection_withoutSize_def nullish_def sendToBackend_def detection_failed_def)

subsection \<open>C3: a failed request\<close>

text \<open>
  C3, as the code has it. When the request is rejected, \<open>sendToBackend\<close> ends with the loading
  flag cleared, one failure notice added, and no result displayed: the result was set to
  \<^verbatim>\<open>null\<close> when the request started, whatever was displayed before. Both variants.
\<close>

theorem failed_request_clears_result:
  "loading (sendToBackend rt now (Inl err) s) = False \<and>
   result (sendToBackend rt now (Inl err) s) = Null \<and>
   alerts (sendToBackend rt now (Inl err) s) = alerts s @ [''Detection failed. Please try again.''] \<and>
   history (sendToBackend rt now (Inl err) s) = history s \<and>
   loading (sendToBackend_withoutSize rt (Inl err) s) = False \<and>
   result (sendToBackend_withoutSize rt (Inl err) s) = Null \<and>
   alerts (sendToBackend_withoutSize rt (Inl err) s) =
     alerts s @ [''Detection failed. Please try again.'']"
  by (simp add: sendToBackend_def sendToBackend_withoutSize_def detection_failed_def)

text \<open>
  The claim as written keeps the result displayed before the request. From a state that
  displays a result with two detections counted, a rejected request leaves \<^verbatim>\<open>null\<close>.
\<close>

theorem failed_request_loses_prior_result:
  "\<forall>rt.
     result (sendToBackend rt ''2024-05-01T08:00:00.000Z'' (Inl RequestFailed)
       \<lparr>image = Some ''blob:capture'',
        result = Obj [(''count'', Num (Fin 2)), (''detections'', Arr [])],
        loading = False, imageDimensions = None, history = [], localStorage = None,
        alerts = [], timers = []\<rparr>) = Null \<and>
     Obj [(''count'', Num (Fin 2)), (''detections'', Arr [])] \<noteq> Null"
  by (simp add: sendToBackend_def detection_failed_def)

theorem failed_request_witness:
  "\<forall>rt.
     loading (sendToBackend rt ''2024-05-01T08:00:00.000Z'' (Inl RequestFailed)
       \<lparr>image = None, result = Null, loading = False, imageDimensions = None, history = [],
        localStorage = None, alerts = [], timers = []\<rparr>) = False \<and>
     alerts (sendToBackend rt ''2024-05-01T08:00:00.000Z'' (Inl RequestFailed)
       \<lparr>image = None, result = Null, loading = False, imageDimensions = None, history = [],
        localStorage = None, alerts = [], timers = []\<rparr>) =
       [''Detection failed. Please try again.'']"
proof (intro allI)
  fix rt
  show "loading (sendToBackend rt ''2024-05-01T08:00:00.000Z'' (Inl RequestFailed)
       \<lparr>image = None, result = Null, loading = False, imageDimensions = None, history = [],
        localStorage = None, alerts = [], timers = []\<rparr>) = False \<and>
     alerts (sendToBackend rt ''2024-05-01T08:00:00.000Z'' (Inl RequestFailed)
       \<lparr>image = None, result = Null, loading = False, imageDimensions = None, history = [],
        localStorage = None, alerts = [], timers = []\<rparr>) =
       [''Detection failed. Please try again.'']"
    using failed_request_clears_result [of rt "''2024-05-01T08:00:00.000Z''" RequestFailed
        "\<lparr>image = None, result = Null, loading = False, imageDimensions = None, history = [],
          localStorage = None, alerts = [], timers = []\<rparr>"]
    by simp
qed

subsection \<open>C4: persistence after a mutation\<close>

text \<open>
  C4 says that after every mutation of the history the stored blob is the new history, also
  after the last entry is removed. With one entry in the history and in the slot, deleting
  that entry empties the history; the effect then writes nothing, because it writes only a
  non-empty history, and the slot still holds the deleted entry.
\<close>

theorem delete_last_item_not_persisted:
  "history (delete_clicked ''1700000000000''
      \<lparr>image = None, result = Null, loading = False, imageDimensions = None,
       history = [\<lparr>item_id = ''1700000000000'', item_timestamp = ''Nov 14, 2023, 10:13:20 PM'',
                   item_result = Null, item_imageData = ''img'',
                   item_filename = ''detection_1.jpg''\<rparr>],
       localStorage = Some (Serialized
                  [\<lparr>item_id = ''1700000000000'', item_timestamp = ''Nov 14, 2023, 10:13:20 PM'',
                    item_result = Null, item_imageData = ''img'',
                    item_filename = ''detection_1.jpg''\<rparr>]),
       alerts = [], timers = []\<rparr>) = [] \<and>
   persisted (delete_clicked ''1700000000000''
      \<lparr>image = None, result = Null, loading = False, imageDimensions = None,
       history = [\<lparr>item_id = ''1700000000000'', item_timestamp = ''Nov 14, 2023, 10:13:20 PM'',
                   item_result = Null, item_imageData = ''img'',
                   item_filename = ''detection_1.jpg''\<rparr>],
       localStorage = Some (Serialized
                  [\<lparr>item_id = ''1700000000000'', item_timestamp = ''Nov 14, 2023, 10:13:20 PM'',
                    item_result = Null, item_imageData = ''img'',
                    item_filename = ''detection_1.jpg''\<rparr>]),
       alerts = [], timers = []\<rparr>) =
     [\<lparr>item_id = ''1700000000000'', item_timestamp = ''Nov 14, 2023, 10:13:20 PM'',
       item_result = Null, item_imageData = ''img'', item_filename = ''detection_1.jpg''\<rparr>]"
  by (simp add: delete_clicked_def deleteHistoryItem_def save_effect_def persisted_def)

subsection \<open>C5: the count field\<close>

text \<open>
  C5, as the code has it. The normalised \<open>count\<close> is the raw \<open>count\<close> itself when that is
  truthy, with no numeric coercion, and the number 0 otherwise (absent, \<^verbatim>\<open>null\<close>, NaN, zero,
  \<^verbatim>\<open>false\<close>, the empty string). A raw count that is a number is kept unless it is NaN or zero.
  The detections play no part: \<^verbatim>\<open>{count: 3, detections: []}\<close> gives count 3 and no detections.
  Both variants.
\<close>

theorem count_kept_when_truthy:
  "(processedResult rt now data = Inr r \<longrightarrow>
      js_get r ''count'' =
        (if ToBoolean (js_get data ''count'') then js_get data ''count'' else Num (Fin 0)) \<and>
      (\<forall>n. js_get data ''count'' = Num n \<longrightarrow> js_get r ''count'' = Num (or_zero n))) \<and>
   (processedResult_withoutSize rt data = Inr r' \<longrightarrow>
      js_get r' ''count'' =
        (if ToBoolean (js_get data ''count'') then js_get data ''count'' else Num (Fin 0)) \<and>
      (\<forall>n. js_get data ''count'' = Num n \<longrightarrow> js_get r' ''count'' = Num (or_zero n))) \<and>
   processedResult rt now (Obj [(''count'', Num (Fin 3)), (''detections'', Arr [])]) =
     Inr (Obj [(''count'', Num (Fin 3)),
               (''detections'', Arr []),
               (''image_size'', Undefined),
               (''size_counts'', zero_size_counts),
               (''calibration_info'', Undefined),
               (''timestamp'', Str now)]) \<and>
   processedResult_withoutSize rt (Obj [(''count'', Num (Fin 3)), (''detections'', Arr [])]) =
     Inr (Obj [(''count'', Num (Fin 3)), (''detections'', Arr [])])"
  by (auto simp: processedResult_def processedResult_withoutSize_def nullish_def js_or_def
      or_zero_def split: if_splits sum.splits)

text \<open>
  The claim as written coerces the raw count to a number and defaults a non-numeric one to 0.
  The raw count \<^verbatim>\<open>"abc"\<close> is kept as the string it is.
\<close>

theorem count_string_not_coerced:
  "\<forall>rt. processedResult rt ''2024-05-01T08:00:00.000Z'' (Obj [(''count'', Str ''abc''), (''detections'', Arr [])]) =
     Inr (Obj [(''count'', Str ''abc''),
               (''detections'', Arr []),
               (''image_size'', Undefined),
               (''size_counts'', zero_size_counts),
               (''calibration_info'', Undefined),
               (''timestamp'', Str ''2024-05-01T08:00:00.000Z'')]) \<and>
     Str ''abc'' \<noteq> Num (Fin 0)"
  by (simp add: processedResult_def nullish_def js_or_def)

text \<open>The theorem at a response that counts seven and lists no detection.\<close>

theorem count_kept_witness:
  "\<forall>rt. processedResult rt ''2024-05-01T08:00:00.000Z''
          (Obj [(''count'', Num (Fin 7)), (''detections'', Arr [])]) =
          Inr (Obj [(''count'', Num (Fin 7)),
                    (''detections'', Arr []),
                    (''image_size'', Undefined),
                    (''size_counts'', zero_size_counts),
                    (''calibration_info'', Undefined),
                    (''timestamp'', Str ''2024-05-01T08:00:00.000Z'')]) \<and>
        js_get (Obj [(''count'', Num (Fin 7)),
                    (''detections'', Arr []),
                    (''image_size'', Undefined),
                    (''size_counts'', zero_size_counts),
                    (''calibration_info'', Undefined),
                    (''timestamp'', Str ''2024-05-01T08:00:00.000Z'')]) ''count'' = Num (Fin 7)"
proof
  fix rt
  let ?data = "Obj [(''count'', Num (Fin 7)), (''detections'', Arr [])]"
  let ?r = "Obj [(''count'', Num (Fin 7)),
                 (''detections'', Arr []),
                 (''image_size'', Undefined),
                 (''size_counts'', zero_size_counts),
                 (''calibration_info'', Undefined),
                 (''timestamp'', Str ''2024-05-01T08:00:00.000Z'')]"
  have r: "processedResult rt ''2024-05-01T08:00:00.000Z'' ?data = Inr ?r"
    by (simp add: processedResult_def nullish_def js_or_def)
  with count_kept_when_truthy [of rt "''2024-05-01T08:00:00.000Z''" ?data ?r]
  have "js_get ?r ''count'' = Num (Fin 7)"
    by simp
  with r show "processedResult rt ''2024-05-01T08:00:00.000Z'' ?data = Inr ?r \<and>
      js_get ?r ''count'' = Num (Fin 7)"
    by blast
qed

subsection \<open>C6: the cap of fifty\<close>

text \<open>
  C6. From an empty history, 55 calls of \<open>saveToHistory\<close> in sequence leave exactly 50 items:
  those of the last 50 calls, the newest first. Every call puts its item in front and keeps
  the first 50, so the oldest fall off the end.
\<close>

theorem history_cap_55:
  assumes "length calls = 55"
  shows "length (save_all calls []) = 50 \<and>
         save_all calls [] = rev (map mk_item (drop 5 calls)) \<and>
         saveToHistory i t r d f hist = take 50 (mk_item (i, t, r, d, f) # hist)"
proof -
  have e: "save_all calls [] = take 50 (rev (map mk_item calls))"
    using save_all_eq [of "[]" calls] by simp
  have "take 50 (rev (map mk_item calls)) = rev (drop 5 (map mk_item calls))"
    using assms by (simp add: take_rev)
  with e assms show ?thesis by (simp add: drop_map saveToHistory_eq)
qed

text \<open>The theorem at 55 calls whose ids are the words of 0 to 54 letters: the ids left are
  those of 54 down to 5 letters.\<close>

theorem history_cap_55_witness:
  "length (map (\<lambda>n. (replicate n (CHR ''x''), ''t'', Null, ''img'', ''f'')) [0..<55]) = 55 \<and>
   length (save_all (map (\<lambda>n. (replicate n (CHR ''x''), ''t'', Null, ''img'', ''f'')) [0..<55]) []) = 50 \<and>
   map item_id (save_all (map (\<lambda>n. (replicate n (CHR ''x''), ''t'', Null, ''img'', ''f'')) [0..<55]) []) = map (\<lambda>n. replicate n (CHR ''x'')) (rev [5..<55])"
  using history_cap_55 [of "map (\<lambda>n. (replicate n (CHR ''x''), ''t'', Null, ''img'', ''f'')) [0..<55]"]
  by (simp add: rev_map drop_map mk_item_def comp_def)

subsection \<open>C7: normalising twice\<close>

text \<open>
  C7, as the code has it. Let a response normalise to \<open>r1\<close>, and let every optional size field
  of every detection of \<open>r1\<close> be \<^verbatim>\<open>undefined\<close> or a number other than NaN and zero. Then
  normalising \<open>r1\<close> again succeeds and gives a result equal to \<open>r1\<close> in every field except
  \<open>timestamp\<close>, which is the clock reading of the second normalisation (so it advances exactly
  when the clock has).
\<close>

theorem renormalize_settled:
  assumes "processedResult rt t1 x = Inr r1" and "metrics_settled r1"
  shows "processedResult rt t2 r1 = processedResult rt t2 x \<and>
         (\<exists>r2. processedResult rt t2 r1 = Inr r2 \<and>
               (\<forall>k. k \<noteq> ''timestamp'' \<longrightarrow> js_get r2 k = js_get r1 k) \<and>
               js_get r2 ''timestamp'' = Str t2)"
proof -
  from assms(1) obtain ds where nn: "\<not> nullish x"
    and ds: "(if isArray (js_get x ''detections'')
               then map_throw (normalizeDetection rt) (elems (js_get x ''detections''))
               else Inr []) = Inr ds"
    and r1: "r1 = Obj
             [(''count'', js_or (js_get x ''count'') (Num (Fin 0))),
              (''detections'', Arr ds),
              (''image_size'', js_get x ''image_size''),
              (''size_counts'', js_or (js_get x ''size_counts'') zero_size_counts),
              (''calibration_info'', js_get x ''calibration_info''),
              (''timestamp'', Str t1)]"
    by (auto simp: processedResult_def split: if_splits sum.splits)
  from assms(2) have settled:
    "list_all (\<lambda>d. list_all (\<lambda>k. js_get d k = Undefined \<or> ToBoolean (js_get d k)) metric_keys) ds"
    by (simp add: metrics_settled_def r1)
  have again: "map_throw (normalizeDetection rt) ds = Inr ds"
  proof (cases "isArray (js_get x ''detections'')")
    case True
    with ds settled show ?thesis by (auto intro: map_throw_again)
  next
    case False
    with ds show ?thesis by simp
  qed
  have z: "ToBoolean zero_size_counts"
    by (simp add: zero_size_counts_def)
  have c: "js_or (js_or a (Num (Fin 0))) (Num (Fin 0)) = js_or a (Num (Fin 0))" for a
    by (auto simp: js_or_def)
  have second: "processedResult rt t2 r1 = Inr (Obj
             [(''count'', js_or (js_get x ''count'') (Num (Fin 0))),
              (''detections'', Arr ds),
              (''image_size'', js_get x ''image_size''),
              (''size_counts'', js_or (js_get x ''size_counts'') zero_size_counts),
              (''calibration_info'', js_get x ''calibration_info''),
              (''timestamp'', Str t2)])"
    by (simp add: processedResult_def r1 nullish_def again c js_or_again z)
  have first: "processedResult rt t2 x = Inr (Obj
             [(''count'', js_or (js_get x ''count'') (Num (Fin 0))),
              (''detections'', Arr ds),
              (''image_size'', js_get x ''image_size''),
              (''size_counts'', js_or (js_get x ''size_counts'') zero_size_counts),
              (''calibration_info'', js_get x ''calibration_info''),
              (''timestamp'', Str t2)])"
    using nn ds by (simp add: processedResult_def)
  show ?thesis
    unfolding second first by (simp add: r1)
qed

text \<open>
  The claim as written holds for every output of the normalisation. The response
  \<^verbatim>\<open>{detections: [{width_px: {}}]}\<close> normalises to a detection whose \<open>width_px\<close> is NaN (the
  object is truthy and \<^verbatim>\<open>Number({})\<close> is NaN); normalising that output again gives
  \<open>width_px\<close> \<^verbatim>\<open>undefined\<close>, since NaN is falsy.
\<close>

theorem renormalize_drops_NaN_metric:
  "\<forall>rt.
     processedResult rt ''2024-05-01T08:00:00.000Z'' (Obj [(''detections'', Arr [Obj [(''width_px'', Obj [])]])]) =
       Inr (Obj [(''count'', Num (Fin 0)),
           (''detections'', Arr [Obj
              [(''confidence'', Num (Fin 0)),
               (''bbox'', Arr [Num (Fin 0), Num (Fin 0), Num (Fin 0), Num (Fin 0)]),
               (''label'', Str ''Microplastic''),
               (''width_px'', Num NaN),
               (''height_px'', Undefined),
               (width_um, Undefined),
               (height_um, Undefined),
               (diagonal_um, Undefined),
               (''size_category'', Undefined)]]),
           (''image_size'', Undefined),
           (''size_counts'', zero_size_counts),
           (''calibration_info'', Undefined),
           (''timestamp'', Str ''2024-05-01T08:00:00.000Z'')]) \<and>
     processedResult rt ''2024-05-01T08:00:05.000Z''
       (Obj [(''count'', Num (Fin 0)),
           (''detections'', Arr [Obj
              [(''confidence'', Num (Fin 0)),
               (''bbox'', Arr [Num (Fin 0), Num (Fin 0), Num (Fin 0), Num (Fin 0)]),
               (''label'', Str ''Microplastic''),
               (''width_px'', Num NaN),
               (''height_px'', Undefined),
               (width_um, Undefined),
               (height_um, Undefined),
               (diagonal_um, Undefined),
               (''size_category'', Undefined)]]),
           (''image_size'', Undefined),
           (''size_counts'', zero_size_counts),
           (''calibration_info'', Undefined),
           (''timestamp'', Str ''2024-05-01T08:00:00.000Z'')]) =
       Inr (Obj [(''count'', Num (Fin 0)),
           (''detections'', Arr [Obj
              [(''confidence'', Num (Fin 0)),
               (''bbox'', Arr [Num (Fin 0), Num (Fin 0), Num (Fin 0), Num (Fin 0)]),
               (''label'', Str ''Microplastic''),
               (''width_px'', Undefined),
               (''height_px'', Undefined),
               (width_um, Undefined),
               (height_um, Undefined),
               (diagonal_um, Undefined),
               (''size_category'', Undefined)]]),
           (''image_size'', Undefined),
           (''size_counts'', zero_size_counts),
           (''calibration_info'', Undefined),
           (''timestamp'', Str ''2024-05-01T08:00:05.000Z'')]) \<and>
     Num NaN \<noteq> Undefined"
  by (simp add: processedResult_def normalizeDetection_def nullish_def js_or_def or_zero_def
      normalizeBbox_def number_if_truthy_def has_own_def key_defs zero_size_counts_def)

text \<open>The theorem at a response with one detection that is 30 pixels wide.\<close>

theorem renormalize_settled_witness:
  "\<forall>rt.
     processedResult rt ''2024-05-01T08:00:00.000Z''
       (Obj [(''count'', Num (Fin 1)),
           (''detections'', Arr [Obj [(''confidence'', Num (Fin (9 / 10))),
                                     (''width_px'', Num (Fin 30))]])]) =
       Inr (Obj [(''count'', Num (Fin 1)),
           (''detections'', Arr [Obj
              [(''confidence'', Num (Fin (9 / 10))),
               (''bbox'', Arr [Num (Fin 0), Num (Fin 0), Num (Fin 0), Num (Fin 0)]),
               (''label'', Str ''Microplastic''),
               (''width_px'', Num (Fin 30)),
               (''height_px'', Undefined),
               (width_um, Undefined),
               (height_um, Undefined),
               (diagonal_um, Undefined),
               (''size_category'', Undefined)]]),
           (''image_size'', Undefined),
           (''size_counts'', zero_size_counts),
           (''calibration_info'', Undefined),
           (''timestamp'', Str ''2024-05-01T08:00:00.000Z'')]) \<and>
     metrics_settled
       (Obj [(''count'', Num (Fin 1)),
           (''detections'', Arr [Obj
              [(''confidence'', Num (Fin (9 / 10))),
               (''bbox'', Arr [Num (Fin 0), Num (Fin 0), Num (Fin 0), Num (Fin 0)]),
               (''label'', Str ''Microplastic''),
               (''width_px'', Num (Fin 30)),
               (''height_px'', Undefined),
               (width_um, Undefined),
               (height_um, Undefined),
               (diagonal_um, Undefined),
               (''size_category'', Undefined)]]),
           (''image_size'', Undefined),
           (''size_counts'', zero_size_counts),
           (''calibration_info'', Undefined),
           (''timestamp'', Str ''2024-05-01T08:00:00.000Z'')]) \<and>
     processedResult rt ''2024-05-01T08:00:05.000Z''
       (Obj [(''count'', Num (Fin 1)),
           (''detections'', Arr [Obj
              [(''confidence'', Num (Fin (9 / 10))),
               (''bbox'', Arr [Num (Fin 0), Num (Fin 0), Num (Fin 0), Num (Fin 0)]),
               (''label'', Str ''Microplastic''),
               (''width_px'', Num (Fin 30)),
               (''height_px'', Undefined),
               (width_um, Undefined),
               (height_um, Undefined),
               (diagonal_um, Undefined),
               (''size_category'', Undefined)]]),
           (''image_size'', Undefined),
           (''size_counts'', zero_size_counts),
           (''calibration_info'', Undefined),
           (''timestamp'', Str ''2024-05-01T08:00:00.000Z'')]) =
       Inr (Obj [(''count'', Num (Fin 1)),
           (''detections'', Arr [Obj
              [(''confidence'', Num (Fin (9 / 10))),
               (''bbox'', Arr [Num (Fin 0), Num (Fin 0), Num (Fin 0), Num (Fin 0)]),
               (''label'', Str ''Microplastic''),
               (''width_px'', Num (Fin 30)),
               (''height_px'', Undefined),
               (width_um, Undefined),
               (height_um, Undefined),
               (diagonal_um, Undefined),
               (''size_category'', Undefined)]]),
           (''image_size'', Undefined),
           (''size_counts'', zero_size_counts),
           (''calibration_info'', Undefined),
           (''timestamp'', Str ''2024-05-01T08:00:05.000Z'')])"
proof
  fix rt
  let ?x = "Obj [(''count'', Num (Fin 1)),
           (''detections'', Arr [Obj [(''confidence'', Num (Fin (9 / 10))),
                                     (''width_px'', Num (Fin 30))]])]"
  let ?r1 = "Obj [(''count'', Num (Fin 1)),
           (''detections'', Arr [Obj
              [(''confidence'', Num (Fin (9 / 10))),
               (''bbox'', Arr [Num (Fin 0), Num (Fin 0), Num (Fin 0), Num (Fin 0)]),
               (''label'', Str ''Microplastic''),
               (''width_px'', Num (Fin 30)),
               (''height_px'', Undefined),
               (width_um, Undefined),
               (height_um, Undefined),
               (diagonal_um, Undefined),
               (''size_category'', Undefined)]]),
           (''image_size'', Undefined),
           (''size_counts'', zero_size_counts),
           (''calibration_info'', Undefined),
           (''timestamp'', Str ''2024-05-01T08:00:00.000Z'')]"
  let ?r2 = "Obj [(''count'', Num (Fin 1)),
           (''detections'', Arr [Obj
              [(''confidence'', Num (Fin (9 / 10))),
               (''bbox'', Arr [Num (Fin 0), Num (Fin 0), Num (Fin 0), Num (Fin 0)]),
               (''label'', Str ''Microplastic''),
               (''width_px'', Num (Fin 30)),
               (''height_px'', Undefined),
               (width_um, Undefined),
               (height_um, Undefined),
               (diagonal_um, Undefined),
               (''size_category'', Undefined)]]),
           (''image_size'', Undefined),
           (''size_counts'', zero_size_counts),
           (''calibration_info'', Undefined),
           (''timestamp'', Str ''2024-05-01T08:00:05.000Z'')]"
  have h1: "processedResult rt ''2024-05-01T08:00:00.000Z'' ?x = Inr ?r1"
    by (simp add: processedResult_def normalizeDetection_def nullish_def js_or_def or_zero_def
        normalizeBbox_def number_if_truthy_def has_own_def key_defs zero_size_counts_def)
  have h2: "metrics_settled ?r1"
    by (simp add: metrics_settled_def metric_keys_def key_defs)
  have "processedResult rt ''2024-05-01T08:00:05.000Z'' ?x = Inr ?r2"
    by (simp add: processedResult_def normalizeDetection_def nullish_def js_or_def or_zero_def
        normalizeBbox_def number_if_truthy_def has_own_def key_defs zero_size_counts_def)
  with renormalize_settled [OF h1 h2, of "''2024-05-01T08:00:05.000Z''"]
  have "processedResult rt ''2024-05-01T08:00:05.000Z'' ?r1 = Inr ?r2"
    by simp
  with h1 h2 show "processedResult rt ''2024-05-01T08:00:00.000Z'' ?x = Inr ?r1 \<and> metrics_settled ?r1 \<and>
      processedResult rt ''2024-05-01T08:00:05.000Z'' ?r1 = Inr ?r2"
    by blast
qed

subsection \<open>C8: the two policies of the classifier\<close>

text \<open>
  C8, as the code has it. The classifier is a function of the detection alone. For a
  detection whose label is a string: when the label is \<^verbatim>\<open>microplastic\<close> in any letter case and
  \<open>size_category\<close> is \<^verbatim>\<open>"medium"\<close>, the result is the medium (blue) treatment, whatever the
  confidence; when the label is something else and the confidence is 0.75, the result is the
  high-confidence (green) treatment, whatever \<open>size_category\<close> holds. With confidence 0.75
  the result is also green for a detection of any label whose \<open>size_category\<close> is absent or
  falsy, since the label is then not read. For a string label exactly one policy decides:
  the category table, under the key that \<open>size_category\<close> converts to, when \<open>size_category\<close>
  is truthy and the label matches; the confidence bands otherwise.
\<close>

theorem classification_policies:
  "(js_get d ''label'' = Str l \<and> toLowerCase l = ''microplastic'' \<and>
    js_get d ''size_category'' = Str ''medium'' \<longrightarrow>
      getSizeCategoryColor rt d =
        Inr (ClassNames ''border-blue-500 bg-blue-500/10 text-blue-400'')) \<and>
   (js_get d ''label'' = Str l \<and> toLowerCase l \<noteq> ''microplastic'' \<and>
    js_get d ''confidence'' = Num (Fin (3 / 4)) \<longrightarrow>
      getSizeCategoryColor rt d =
        Inr (ClassNames ''border-green-500 bg-green-500/10 text-green-400'')) \<and>
   (\<not> nullish d \<and> \<not> ToBoolean (js_get d ''size_category'') \<and>
    js_get d ''confidence'' = Num (Fin (3 / 4)) \<longrightarrow>
      getSizeCategoryColor rt d =
        Inr (ClassNames ''border-green-500 bg-green-500/10 text-green-400'')) \<and>
   (js_get d ''label'' = Str l \<longrightarrow>
      getSizeCategoryColor rt d =
        (if ToBoolean (js_get d ''size_category'') \<and> toLowerCase l = ''microplastic''
         then bind_throw (ToString rt (js_get d ''size_category'')) (\<lambda>k. Inr (categoryColor k))
         else bind_throw (Number rt (js_get d ''confidence''))
                (\<lambda>c. Inr (ClassNames (confidenceColor (or_zero c))))))"
proof (intro conjI impI)
  assume a: "js_get d ''label'' = Str l \<and> toLowerCase l = ''microplastic'' \<and>
    js_get d ''size_category'' = Str ''medium''"
  then have "\<not> nullish d" by (auto simp: nullish_def)
  with a show "getSizeCategoryColor rt d =
        Inr (ClassNames ''border-blue-500 bg-blue-500/10 text-blue-400'')"
    by (simp add: getSizeCategoryColor_def lowercase_equals_def categoryColor_def
        sizeCategoryColors_def)
next
  assume a: "js_get d ''label'' = Str l \<and> toLowerCase l \<noteq> ''microplastic'' \<and>
    js_get d ''confidence'' = Num (Fin (3 / 4))"
  then have "\<not> nullish d" by (auto simp: nullish_def)
  with a show "getSizeCategoryColor rt d =
        Inr (ClassNames ''border-green-500 bg-green-500/10 text-green-400'')"
    by (simp add: getSizeCategoryColor_def lowercase_equals_def confidenceColor_def
        or_zero_def lit_0_7_def green_def)
next
  assume "\<not> nullish d \<and> \<not> ToBoolean (js_get d ''size_category'') \<and>
    js_get d ''confidence'' = Num (Fin (3 / 4))"
  then show "getSizeCategoryColor rt d =
        Inr (ClassNames ''border-green-500 bg-green-500/10 text-green-400'')"
    by (simp add: getSizeCategoryColor_def confidenceColor_def or_zero_def lit_0_7_def
        green_def)
next
  assume a: "js_get d ''label'' = Str l"
  then have "\<not> nullish d" by (auto simp: nullish_def)
  with a show "getSizeCategoryColor rt d =
        (if ToBoolean (js_get d ''size_category'') \<and> toLowerCase l = ''microplastic''
         then bind_throw (ToString rt (js_get d ''size_category'')) (\<lambda>k. Inr (categoryColor k))
         else bind_throw (Number rt (js_get d ''confidence''))
                (\<lambda>c. Inr (ClassNames (confidenceColor (or_zero c)))))"
    by (simp add: getSizeCategoryColor_def lowercase_equals_def)
qed

text \<open>
  The claim as written covers every detection whose label is not \<^verbatim>\<open>microplastic\<close>. The
  normalisation keeps a truthy label that is no string, such as the number 5. For the
  detection \<^verbatim>\<open>{confidence: 0.75, label: 5, size_category: "large"}\<close> the classifier calls
  \<^verbatim>\<open>toLowerCase\<close> on the number and throws; it returns no treatment.
\<close>

theorem classification_number_label_throws:
  "\<forall>rt. getSizeCategoryColor rt
          (Obj [(''confidence'', Num (Fin (3 / 4))), (''label'', Num (Fin 5)),
                (''size_category'', Str ''large'')]) = Inl TypeError"
  by (simp add: getSizeCategoryColor_def nullish_def lowercase_equals_def)

text \<open>The theorem at a microplastic of medium size with confidence 0.1, at a fiber labelled
  large with confidence 0.75, and at a detection labelled 5 without a size category.\<close>

theorem classification_policies_witness:
  "\<forall>rt.
     getSizeCategoryColor rt
       (Obj [(''confidence'', Num (Fin (1 / 10))), (''label'', Str ''MicroPlastic''),
             (''size_category'', Str ''medium'')]) =
       Inr (ClassNames ''border-blue-500 bg-blue-500/10 text-blue-400'') \<and>
     getSizeCategoryColor rt
       (Obj [(''confidence'', Num (Fin (3 / 4))), (''label'', Str ''Fiber''),
             (''size_category'', Str ''large'')]) =
       Inr (ClassNames ''border-green-500 bg-green-500/10 text-green-400'') \<and>
     getSizeCategoryColor rt
       (Obj [(''confidence'', Num (Fin (3 / 4))), (''label'', Num (Fin 5))]) =
       Inr (ClassNames ''border-green-500 bg-green-500/10 text-green-400'')"
proof (intro allI conjI)
  fix rt
  show "getSizeCategoryColor rt
       (Obj [(''confidence'', Num (Fin (1 / 10))), (''label'', Str ''MicroPlastic''),
             (''size_category'', Str ''medium'')]) =
       Inr (ClassNames ''border-blue-500 bg-blue-500/10 text-blue-400'')"
    using classification_policies
      [of "Obj [(''confidence'', Num (Fin (1 / 10))), (''label'', Str ''MicroPlastic''),
                (''size_category'', Str ''medium'')]" "''MicroPlastic''" rt, THEN conjunct1]
    by (simp add: toLowerCase_def toLowerCase_char_def)
  show "getSizeCategoryColor rt
       (Obj [(''confidence'', Num (Fin (3 / 4))), (''label'', Str ''Fiber''),
             (''size_category'', Str ''large'')]) =
       Inr (ClassNames ''border-green-500 bg-green-500/10 text-green-400'')"
    using classification_policies
      [of "Obj [(''confidence'', Num (Fin (3 / 4))), (''label'', Str ''Fiber''),
                (''size_category'', Str ''large'')]" "''Fiber''" rt,
       THEN conjunct2, THEN conjunct1]
    by (simp add: toLowerCase_def toLowerCase_char_def)
  show "getSizeCategoryColor rt
       (Obj [(''confidence'', Num (Fin (3 / 4))), (''label'', Num (Fin 5))]) =
       Inr (ClassNames ''border-green-500 bg-green-500/10 text-green-400'')"
    using classification_policies
      [of "Obj [(''confidence'', Num (Fin (3 / 4))), (''label'', Num (Fin 5))]" "[]" rt,
       THEN conjunct2, THEN conjunct2, THEN conjunct1]
    by (simp add: nullish_def)
qed

subsection \<open>C9: deleting a history entry\<close>

text \<open>
  C9, as the code has it. \<open>deleteHistoryItem\<close> removes every entry whose id is the given one
  and keeps the other entries in their order: the result is the history with exactly the
  entries of that id left out, so deleting from a history put together from two parts
  deletes from each part in place. The entries left and the entries of that id add up to
  the history, and no entry left has the id. When the ids of the history are distinct, at
  most one entry goes. An id that no entry has leaves the history as it is, the same entries
  in the same order.
\<close>

theorem deleteHistoryItem_removes_matching:
  "deleteHistoryItem i hist = filter (\<lambda>item. item_id item \<noteq> i) hist \<and>
   deleteHistoryItem i (before @ item # after) =
     (if item_id item = i then deleteHistoryItem i before @ deleteHistoryItem i after
      else deleteHistoryItem i before @ item # deleteHistoryItem i after) \<and>
   length (deleteHistoryItem i hist) + length (filter (\<lambda>item. item_id item = i) hist) =
     length hist \<and>
   (\<forall>item \<in> set (deleteHistoryItem i hist). item_id item \<noteq> i) \<and>
   (distinct (map item_id hist) \<longrightarrow> length hist \<le> length (deleteHistoryItem i hist) + 1) \<and>
   (i \<notin> set (map item_id hist) \<longrightarrow> deleteHistoryItem i hist = hist)"
proof (intro conjI)
  show "deleteHistoryItem i hist = filter (\<lambda>item. item_id item \<noteq> i) hist"
    by (simp add: deleteHistoryItem_def)
  show "deleteHistoryItem i (before @ item # after) =
     (if item_id item = i then deleteHistoryItem i before @ deleteHistoryItem i after
      else deleteHistoryItem i before @ item # deleteHistoryItem i after)"
    by (simp add: deleteHistoryItem_def)
  show "length (deleteHistoryItem i hist) + length (filter (\<lambda>item. item_id item = i) hist) =
     length hist"
    using sum_length_filter_compl [of "\<lambda>item. item_id item = i" hist]
    by (simp add: deleteHistoryItem_def)
  show "\<forall>item \<in> set (deleteHistoryItem i hist). item_id item \<noteq> i"
    by (simp add: deleteHistoryItem_def)
  show "distinct (map item_id hist) \<longrightarrow> length hist \<le> length (deleteHistoryItem i hist) + 1"
    using filter_other_ids [of item_id hist i] by (simp add: deleteHistoryItem_def)
  show "i \<notin> set (map item_id hist) \<longrightarrow> deleteHistoryItem i hist = hist"
    by (auto simp: deleteHistoryItem_def filter_id_conv)
qed

text \<open>
  The claim as written deletes at most one matching entry. Two entries saved within the same
  millisecond share the id; deleting by that id removes both.
\<close>

theorem deleteHistoryItem_two_matching:
  "deleteHistoryItem ''1700000000000''
     [\<lparr>item_id = ''1700000000000'', item_timestamp = ''Nov 14, 2023, 10:13:20 PM'', item_result = Null, item_imageData = ''img'', item_filename = ''f''\<rparr>,
      \<lparr>item_id = ''1700000000000'', item_timestamp = ''Nov 14, 2023, 10:13:20 PM'', item_result = Null, item_imageData = ''img2'', item_filename = ''g''\<rparr>] = []"
  by (simp add: deleteHistoryItem_def)

text \<open>The theorem at a history of three entries with distinct ids: deleting the middle one
  leaves the first and the third in their order, and an id that none has leaves all three.\<close>

theorem deleteHistoryItem_witness:
  "distinct (map item_id
     [\<lparr>item_id = ''1700000000000'', item_timestamp = ''Nov 14, 2023, 10:13:20 PM'', item_result = Null, item_imageData = ''img'', item_filename = ''f''\<rparr>,
      \<lparr>item_id = ''1700000000500'', item_timestamp = ''Nov 14, 2023, 10:13:21 PM'', item_result = Null, item_imageData = ''img'', item_filename = ''f''\<rparr>,
      \<lparr>item_id = ''1700000002000'', item_timestamp = ''Nov 14, 2023, 10:13:22 PM'', item_result = Null, item_imageData = ''img'', item_filename = ''f''\<rparr>]) \<and>
   deleteHistoryItem ''1700000000500''
     [\<lparr>item_id = ''1700000000000'', item_timestamp = ''Nov 14, 2023, 10:13:20 PM'', item_result = Null, item_imageData = ''img'', item_filename = ''f''\<rparr>,
      \<lparr>item_id = ''1700000000500'', item_timestamp = ''Nov 14, 2023, 10:13:21 PM'', item_result = Null, item_imageData = ''img'', item_filename = ''f''\<rparr>,
      \<lparr>item_id = ''1700000002000'', item_timestamp = ''Nov 14, 2023, 10:13:22 PM'', item_result = Null, item_imageData = ''img'', item_filename = ''f''\<rparr>] =
     [\<lparr>item_id = ''1700000000000'', item_timestamp = ''Nov 14, 2023, 10:13:20 PM'', item_result = Null, item_imageData = ''img'', item_filename = ''f''\<rparr>,
      \<lparr>item_id = ''1700000002000'', item_timestamp = ''Nov 14, 2023, 10:13:22 PM'', item_result = Null, item_imageData = ''img'', item_filename = ''f''\<rparr>] \<and>
   ''1700000009999'' \<notin> set (map item_id
     [\<lparr>item_id = ''1700000000000'', item_timestamp = ''Nov 14, 2023, 10:13:20 PM'', item_result = Null, item_imageData = ''img'', item_filename = ''f''\<rparr>,
      \<lparr>item_id = ''1700000000500'', item_timestamp = ''Nov 14, 2023, 10:13:21 PM'', item_result = Null, item_imageData = ''img'', item_filename = ''f''\<rparr>,
      \<lparr>item_id = ''1700000002000'', item_timestamp = ''Nov 14, 2023, 10:13:22 PM'', item_result = Null, item_imageData = ''img'', item_filename = ''f''\<rparr>]) \<and>
   deleteHistoryItem ''1700000009999''
     [\<lparr>item_id = ''1700000000000'', item_timestamp = ''Nov 14, 2023, 10:13:20 PM'', item_result = Null, item_imageData = ''img'', item_filename = ''f''\<rparr>,
      \<lparr>item_id = ''1700000000500'', item_timestamp = ''Nov 14, 2023, 10:13:21 PM'', item_result = Null, item_imageData = ''img'', item_filename = ''f''\<rparr>,
      \<lparr>item_id = ''1700000002000'', item_timestamp = ''Nov 14, 2023, 10:13:22 PM'', item_result = Null, item_imageData = ''img'', item_filename = ''f''\<rparr>] =
     [\<lparr>item_id = ''1700000000000'', item_timestamp = ''Nov 14, 2023, 10:13:20 PM'', item_result = Null, item_imageData = ''img'', item_filename = ''f''\<rparr>,
      \<lparr>item_id = ''1700000000500'', item_timestamp = ''Nov 14, 2023, 10:13:21 PM'', item_result = Null, item_imageData = ''img'', item_filename = ''f''\<rparr>,
      \<lparr>item_id = ''1700000002000'', item_timestamp = ''Nov 14, 2023, 10:13:22 PM'', item_result = Null, item_imageData = ''img'', item_filename = ''f''\<rparr>]"
proof -
  let ?h = "[\<lparr>item_id = ''1700000000000'', item_timestamp = ''Nov 14, 2023, 10:13:20 PM'', item_result = Null, item_imageData = ''img'', item_filename = ''f''\<rparr>,
      \<lparr>item_id = ''1700000000500'', item_timestamp = ''Nov 14, 2023, 10:13:21 PM'', item_result = Null, item_imageData = ''img'', item_filename = ''f''\<rparr>,
      \<lparr>item_id = ''1700000002000'', item_timestamp = ''Nov 14, 2023, 10:13:22 PM'', item_result = Null, item_imageData = ''img'', item_filename = ''f''\<rparr>]"
  have "deleteHistoryItem ''1700000000500'' ?h =
          filter (\<lambda>item. item_id item \<noteq> ''1700000000500'') ?h"
    using deleteHistoryItem_removes_matching [of "''1700000000500''" ?h] by blast
  moreover have "''1700000009999'' \<notin> set (map item_id ?h) \<longrightarrow>
      deleteHistoryItem ''1700000009999'' ?h = ?h"
    using deleteHistoryItem_removes_matching [of "''1700000009999''" ?h] by blast
  ultimately show ?thesis by simp
qed

subsection \<open>C10: a category outside the table\<close>

text \<open>
  C10 says that a microplastic whose \<open>size_category\<close> is a non-empty string outside the four
  categories gets the gray default. For the category \<^verbatim>\<open>"constructor"\<close> the table lookup finds
  the member \<^verbatim>\<open>constructor\<close> that the table inherits from \<^verbatim>\<open>Object.prototype\<close>; it is truthy,
  so the default is not taken and the classifier returns that function, not a string of
  class names.
\<close>

theorem inherited_category_not_gray:
  "getSizeCategoryColor rt
     (Obj [(''confidence'', Num (Fin (9 / 10))), (''label'', Str ''Microplastic''),
           (''size_category'', Str ''constructor'')]) =
     Inr (PrototypeMember ''constructor'') \<and>
   PrototypeMember ''constructor'' \<noteq> ClassNames gray"
  by (simp add: getSizeCategoryColor_def nullish_def lowercase_equals_def toLowerCase_def
      toLowerCase_char_def categoryColor_def sizeCategoryColors_def Object_prototype_keys_def)

end
